theory Spec2Isabelle
  imports Main "HOL-Library.Sublist"
begin

section \<open>The on-call Slack notifier: \<open>src/index.js\<close>\<close>

text \<open>
  The program under \<open>src/\<close> is a Socket Mode listener with two handlers,
  \<open>app.event('app_mention')\<close> and \<open>app.message\<close>, one module constant
  \<open>alertKeywords\<close> and one decision function \<open>shouldAlert\<close>. The actuator
  \<open>triggerMacAlert\<close> is an external collaborator: a call to it is recorded as an effect.

  Strings are sequences of code units below 256 (\<open>char list\<close>). On such strings
  \<open>String.prototype.toLowerCase\<close> maps one unit to one unit and
  \<open>String.prototype.trim\<close> removes the units 9 to 13, 32 and 160, and the definitions
  below are these functions. Beyond that range \<open>toLowerCase\<close> depends on the context of
  a unit and may change the length of a string; the general statements below therefore use
  \<open>toLowerCase\<close> only as a function from strings to strings and, for the empty text, the
  fact that it maps no other string to the empty one. Its definition is unfolded only to
  evaluate the ASCII literals of the concrete instances.
\<close>

subsection \<open>JavaScript values and string primitives\<close>

text \<open>\<open>process.env\<close>: a dictionary from variable names to strings.\<close>

type_synonym env = "string \<rightharpoonup> string"

text \<open>A string-valued property that may hold \<open>undefined\<close> or \<open>null\<close>.\<close>

datatype jstext = Undefined | Null | Str string

datatype error = TypeError

text \<open>\<open>a || 'lit'\<close>: the falsy values \<open>undefined\<close>, \<open>null\<close> and \<open>''\<close> give the literal.\<close>

fun js_or :: "jstext \<Rightarrow> string \<Rightarrow> jstext" where
  "js_or Undefined d = Str d"
| "js_or Null d = Str d"
| "js_or (Str s) d = (if s = [] then Str d else Str s)"

text \<open>Interpolation in a template literal.\<close>

fun to_string :: "jstext \<Rightarrow> string" where
  "to_string Undefined = ''undefined''"
| "to_string Null = ''null''"
| "to_string (Str s) = s"

text \<open>\<open>process.env.NAME || ''\<close>.\<close>

fun env_or_empty :: "string option \<Rightarrow> string" where
  "env_or_empty None = []"
| "env_or_empty (Some s) = s"

text \<open>
  \<open>String.prototype.toLowerCase\<close> on a string of code units below 256: the units 65 to 90
  (A to Z) and 192 to 222 except 215 move up by 32, every other unit stays. Strings with
  units from 256 on are outside this model.
\<close>

definition toLowerCase_unit :: "char \<Rightarrow> char" where
  "toLowerCase_unit c =
     (let n = (of_char c :: nat)
      in if (65 \<le> n \<and> n \<le> 90) \<or> (192 \<le> n \<and> n \<le> 222 \<and> n \<noteq> 215)
         then char_of (n + 32) else c)"

definition toLowerCase :: "string \<Rightarrow> string" where
  "toLowerCase s = map toLowerCase_unit s"

text \<open>
  The method call \<open>v.toLowerCase()\<close>: a \<open>TypeError\<close> is thrown when \<open>v\<close> is
  \<open>undefined\<close> or \<open>null\<close>.
\<close>

fun call_toLowerCase :: "jstext \<Rightarrow> error + string" where
  "call_toLowerCase Undefined = Inl TypeError"
| "call_toLowerCase Null = Inl TypeError"
| "call_toLowerCase (Str s) = Inr (toLowerCase s)"

definition isWhiteSpace :: "char \<Rightarrow> bool" where
  "isWhiteSpace c =
     (let n = (of_char c :: nat) in (9 \<le> n \<and> n \<le> 13) \<or> n = 32 \<or> n = 160)"

definition trim :: "string \<Rightarrow> string" where
  "trim s = rev (dropWhile isWhiteSpace (rev (dropWhile isWhiteSpace s)))"

text \<open>\<open>s.split(',')\<close>: the pieces between commas; the empty string gives one empty piece.\<close>

fun split_comma :: "string \<Rightarrow> string list" where
  "split_comma [] = [[]]"
| "split_comma (c # cs) =
     (if c = CHR '','' then [] # split_comma cs
      else (c # hd (split_comma cs)) # tl (split_comma cs))"

text \<open>\<open>hay.includes(needle)\<close>: \<open>needle\<close> occurs at some position of \<open>hay\<close>.\<close>

fun includes_str :: "string \<Rightarrow> string \<Rightarrow> bool" where
  "includes_str [] needle = (needle = [])"
| "includes_str (h # t) needle = (prefix needle (h # t) \<or> includes_str t needle)"

subsection \<open>The module constant and the decision function\<close>

text \<open>
  Line 13:
  \<^verbatim>\<open>const alertKeywords = (process.env.ALERT_KEYWORDS || '').split(',').map(k => k.trim()).filter(Boolean);\<close>
\<close>

definition parseKeywords :: "string \<Rightarrow> string list" where
  "parseKeywords v = filter (\<lambda>k. k \<noteq> []) (map trim (split_comma v))"

definition alertKeywords :: "env \<Rightarrow> string list" where
  "alertKeywords e = parseKeywords (env_or_empty (e ''ALERT_KEYWORDS''))"

text \<open>\<open>mentions && mentions.length > 0\<close>; \<open>None\<close> is a \<open>null\<close> or \<open>undefined\<close> argument.\<close>

fun has_mentions :: "string list option \<Rightarrow> bool" where
  "has_mentions None = False"
| "has_mentions (Some ms) = (length ms > 0)"

text \<open>
  Lines 15 to 19, with the module constant as the first argument:
  \<^verbatim>\<open>
  function shouldAlert(text, mentions) {
    const lower = (text || '').toLowerCase();
    if (mentions && mentions.length > 0) return true;
    return alertKeywords.some(k => lower.includes(k.toLowerCase()));
  }\<close>
\<close>

definition shouldAlert :: "string list \<Rightarrow> jstext \<Rightarrow> string list option \<Rightarrow> error + bool" where
  "shouldAlert keywords text mentions =
     (case call_toLowerCase (js_or text []) of
        Inl err \<Rightarrow> Inl err
      | Inr lower \<Rightarrow>
          if has_mentions mentions then Inr True
          else Inr (list_ex (\<lambda>k. includes_str lower (toLowerCase k)) keywords))"

subsection \<open>Events, effects and the two handlers\<close>

text \<open>The argument of \<open>triggerMacAlert\<close>.\<close>

record alert =
  title :: string
  message :: jstext
  channel :: string
  ts :: string

datatype effect = LoggerInfo string | LoggerError error | TriggerMacAlert alert

text \<open>An \<open>app_mention\<close> event.\<close>

record mention_event =
  ev_channel :: string
  ev_text :: jstext
  ev_ts :: string

text \<open>
  A \<open>message\<close> event; \<open>msg_text = None\<close> is a message object without a \<open>text\<close>
  property (\<open>!('text' in message)\<close>).
\<close>

record message_event =
  msg_text :: "jstext option"
  msg_channel :: string
  msg_ts :: string

text \<open>
  Lines 21 to 39. An exception inside \<open>try\<close> is caught and passed to \<open>logger.error\<close>.
  \<^verbatim>\<open>
  const channel = event.channel;
  const text = event.text || '';
  logger.info(`Mention in ${channel}: ${text}`);
  if (shouldAlert(text, ['mention'])) {
    await triggerMacAlert({ title: 'On-Call Alert', message: text || 'You were mentioned',
                            channel, ts: event.ts });
  }\<close>
\<close>

definition app_mention :: "env \<Rightarrow> mention_event \<Rightarrow> effect list" where
  "app_mention e event =
     (let channel = ev_channel event;
          text = js_or (ev_text event) []
      in LoggerInfo (''Mention in '' @ channel @ '': '' @ to_string text) #
         (case shouldAlert (alertKeywords e) text (Some [''mention'']) of
            Inl err \<Rightarrow> [LoggerError err]
          | Inr True \<Rightarrow>
              [TriggerMacAlert
                \<lparr>title = ''On-Call Alert'', message = js_or text ''You were mentioned'',
                 channel = channel, ts = ev_ts event\<rparr>]
          | Inr False \<Rightarrow> []))"

text \<open>
  Lines 41 to 57.
  \<^verbatim>\<open>
  if (!('text' in message)) return;
  const text = message.text || '';
  if (shouldAlert(text, [])) {
    await triggerMacAlert({ title: 'On-Call Alert', message: text,
                            channel: message.channel, ts: message.ts });
  }\<close>
\<close>

definition app_message :: "env \<Rightarrow> message_event \<Rightarrow> effect list" where
  "app_message e m =
     (case msg_text m of
        None \<Rightarrow> []
      | Some t \<Rightarrow>
          (let text = js_or t []
           in case shouldAlert (alertKeywords e) text (Some []) of
                Inl err \<Rightarrow> [LoggerError err]
              | Inr True \<Rightarrow>
                  [TriggerMacAlert
                    \<lparr>title = ''On-Call Alert'', message = text,
                     channel = msg_channel m, ts = msg_ts m\<rparr>]
              | Inr False \<Rightarrow> []))"

text \<open>The listener: each delivered event runs its handler; the effects accumulate in order.\<close>

datatype event = AppMention mention_event | Message message_event

fun handle :: "env \<Rightarrow> event \<Rightarrow> effect list" where
  "handle e (AppMention ev) = app_mention e ev"
| "handle e (Message m) = app_message e m"

definition run :: "env \<Rightarrow> event list \<Rightarrow> effect list" where
  "run e evs = concat (map (handle e) evs)"

subsection \<open>Which keyword matched\<close>

text \<open>
  The element at which \<open>alertKeywords.some(...)\<close> stops: the first keyword, in configured
  order, that the lower-cased text includes. \<open>some\<close> itself returns only a boolean.
\<close>

definition first_matching_keyword :: "string list \<Rightarrow> string \<Rightarrow> string option" where
  "first_matching_keyword keywords text =
     find (\<lambda>k. includes_str (toLowerCase text) (toLowerCase k)) keywords"

subsection \<open>The guard of the actuator call\<close>

fun is_alert :: "effect \<Rightarrow> bool" where
  "is_alert (TriggerMacAlert a) = True"
| "is_alert (LoggerInfo s) = False"
| "is_alert (LoggerError err) = False"


section \<open>Properties\<close>

subsection \<open>Auxiliary facts\<close>

lemma includes_str_sublist: "includes_str hay needle = sublist needle hay"
  by (induction hay) (auto simp: sublist_Cons_right)

lemma call_toLowerCase_js_or:
  "call_toLowerCase (js_or text d) = Inr (toLowerCase (to_string (js_or text d)))"
  by (cases "text") auto

lemma shouldAlert_Inr:
  "shouldAlert keywords text mentions =
     Inr (has_mentions mentions \<or>
          list_ex (\<lambda>k. includes_str (toLowerCase (to_string (js_or text []))) (toLowerCase k)) keywords)"
  by (simp add: shouldAlert_def call_toLowerCase_js_or)

lemma js_or_idem: "js_or (js_or t []) [] = js_or t []"
  by (cases t) auto

lemma parseKeywords_nonempty: "k \<in> set (parseKeywords v) \<Longrightarrow> k \<noteq> []"
  by (simp add: parseKeywords_def)

lemma app_message_cases:
  "app_message e m =
     (case msg_text m of None \<Rightarrow> []
      | Some t \<Rightarrow> if shouldAlert (alertKeywords e) (js_or t []) (Some []) = Inr True
                  then [TriggerMacAlert \<lparr>title = ''On-Call Alert'', message = js_or t [],
                          channel = msg_channel m, ts = msg_ts m\<rparr>]
                  else [])"
  by (simp add: app_message_def shouldAlert_Inr Let_def split: option.splits)

lemma app_mention_always:
  "app_mention e ev =
     [LoggerInfo (''Mention in '' @ ev_channel ev @ '': '' @ to_string (js_or (ev_text ev) [])),
      TriggerMacAlert \<lparr>title = ''On-Call Alert'',
        message = js_or (js_or (ev_text ev) []) ''You were mentioned'',
        channel = ev_channel ev, ts = ev_ts ev\<rparr>]"
  by (simp add: app_mention_def shouldAlert_Inr Let_def)


lemma run_two: "run e [a, b] = handle e a @ handle e b"
  by (simp add: run_def)

lemma alertKeywords_nonempty: "k \<in> set (alertKeywords e) \<Longrightarrow> k \<noteq> []"
  by (simp add: alertKeywords_def parseKeywords_nonempty)

lemma trim_Nil_iff: "(trim s = []) = list_all isWhiteSpace s"
proof
  assume "trim s = []"
  then have all: "\<forall>x \<in> set (dropWhile isWhiteSpace s). isWhiteSpace x"
    by (simp add: trim_def dropWhile_eq_Nil_conv)
  have "dropWhile isWhiteSpace s = []"
  proof (rule ccontr)
    assume ne: "dropWhile isWhiteSpace s \<noteq> []"
    then have "\<not> isWhiteSpace (hd (dropWhile isWhiteSpace s))"
      by (rule hd_dropWhile)
    moreover from ne have "hd (dropWhile isWhiteSpace s) \<in> set (dropWhile isWhiteSpace s)"
      by simp
    ultimately show False using all by blast
  qed
  then show "list_all isWhiteSpace s"
    by (simp add: dropWhile_eq_Nil_conv list_all_iff)
next
  assume "list_all isWhiteSpace s"
  then have "dropWhile isWhiteSpace s = []"
    by (simp add: dropWhile_eq_Nil_conv list_all_iff)
  then show "trim s = []"
    unfolding trim_def by (simp del: dropWhile_eq_Nil_conv)
qed

lemma parseKeywords_Nil_iff:
  "(parseKeywords v = []) = list_all (list_all isWhiteSpace) (split_comma v)"
  by (simp add: parseKeywords_def filter_empty_conv trim_Nil_iff list_all_iff)


text \<open>Rules that evaluate the string primitives on literals.\<close>

lemma eq_char_of_iff: "(c = char_of (n::nat)) = (of_char c = take_bit 8 n)"
  using char_of_eq_iff[of n c] by auto

lemmas eval_simps = toLowerCase_def toLowerCase_unit_def char_of_eq_iff eq_char_of_iff
  take_bit_eq_mod alertKeywords_def parseKeywords_def trim_def isWhiteSpace_def

subsection \<open>Mentions\<close>

text \<open>
  C1, as the code has it. Whenever the mentions list is non-empty, \<open>shouldAlert\<close> returns
  \<open>true\<close>, whatever the keyword list and whatever the text (absent and empty text
  included): the mention test comes before the keywords are looked at, and with no keyword
  configured it alone decides, a call without mentions returning \<open>false\<close>. The
  \<open>app_mention\<close> handler passes \<open>['mention']\<close>, so it calls \<open>triggerMacAlert\<close>
  exactly once for every event and every environment. The result is a bare boolean: no
  reason is attached to it.
\<close>

theorem mention_always_alerts:
  assumes "ms \<noteq> []"
  shows "shouldAlert keywords text (Some ms) = Inr True \<and>
         shouldAlert [] text (Some []) = Inr False \<and>
         shouldAlert [] text None = Inr False \<and>
         filter is_alert (app_mention e ev) =
           [TriggerMacAlert \<lparr>title = ''On-Call Alert'',
              message = js_or (js_or (ev_text ev) []) ''You were mentioned'',
              channel = ev_channel ev, ts = ev_ts ev\<rparr>]"
  using assms by (simp add: shouldAlert_Inr app_mention_always)

theorem mention_always_alerts_witness:
  "[''mention''] \<noteq> [] \<and>
   shouldAlert [''urgent''] (Str []) (Some [''mention'']) = Inr True \<and>
   shouldAlert [] (Str []) (Some []) = Inr False \<and>
   filter is_alert
     (app_mention Map.empty
        \<lparr>ev_channel = ''C024BE91L'', ev_text = Str [], ev_ts = ''1700000000.000100''\<rparr>) =
     [TriggerMacAlert \<lparr>title = ''On-Call Alert'', message = Str ''You were mentioned'',
        channel = ''C024BE91L'', ts = ''1700000000.000100''\<rparr>]"
  using mention_always_alerts
    [of "[''mention'']" "[''urgent'']" "Str []" Map.empty
      "\<lparr>ev_channel = ''C024BE91L'', ev_text = Str [], ev_ts = ''1700000000.000100''\<rparr>"]
  by simp

text \<open>
  C1 as stated fails. On the text \<open>urgent help\<close> with the keyword \<open>urgent\<close>, the call
  with \<open>['mention']\<close> and the call with \<open>[]\<close> return the same value, and the two
  handlers make the same call of \<open>triggerMacAlert\<close> for the same channel and timestamp:
  a match by mention carries no reason that tells it from a match by keyword.
\<close>

theorem mention_reason_not_recorded:
  "shouldAlert [''urgent''] (Str ''urgent help'') (Some [''mention'']) = Inr True \<and>
   shouldAlert [''urgent''] (Str ''urgent help'') (Some []) = Inr True \<and>
   filter is_alert
     (app_mention [''ALERT_KEYWORDS'' \<mapsto> ''urgent'']
        \<lparr>ev_channel = ''C024BE91L'', ev_text = Str ''urgent help'',
         ev_ts = ''1700000000.000100''\<rparr>) =
   app_message [''ALERT_KEYWORDS'' \<mapsto> ''urgent'']
     \<lparr>msg_text = Some (Str ''urgent help''), msg_channel = ''C024BE91L'',
      msg_ts = ''1700000000.000100''\<rparr>"
  by (simp add: shouldAlert_def app_mention_def app_message_def eval_simps)

subsection \<open>Keywords\<close>

text \<open>
  C2, as the code has it. For a call without mentions, \<open>shouldAlert\<close> returns \<open>true\<close>
  exactly when, for some configured keyword \<open>k\<close>, the string \<open>k.toLowerCase()\<close> is a
  contiguous substring of the lower-cased text. The result is a bare boolean: which
  keyword matched is not part of it.
\<close>

theorem keyword_match_iff_substring:
  assumes "\<not> has_mentions mentions"
  shows "shouldAlert keywords text mentions =
           Inr (\<exists>k \<in> set keywords.
                  sublist (toLowerCase k) (toLowerCase (to_string (js_or text []))))"
  using assms by (simp add: shouldAlert_Inr list_ex_iff includes_str_sublist)

theorem keyword_match_iff_substring_witness:
  "\<not> has_mentions (Some []) \<and>
   shouldAlert [''urgent''] (Str ''This is URGENT please help'') (Some []) = Inr True \<and>
   (\<exists>k \<in> set [''urgent''].
       sublist (toLowerCase k)
         (toLowerCase (to_string (js_or (Str ''This is URGENT please help'') []))))"
proof -
  have h: "\<not> has_mentions (Some [])" by simp
  have v: "shouldAlert [''urgent''] (Str ''This is URGENT please help'') (Some []) = Inr True"
    by (simp add: shouldAlert_def eval_simps)
  show ?thesis
    using h v keyword_match_iff_substring
      [OF h, of "[''urgent'']" "Str ''This is URGENT please help''"]
    by simp
qed

text \<open>
  C2 as stated fails. The keyword lists \<open>urgent,help\<close> and \<open>help,urgent\<close> have different first matching
  keywords on the text \<open>urgent help\<close>, and yet \<open>shouldAlert\<close> returns the same value and
  the message handler makes the same call of \<open>triggerMacAlert\<close>: no match reason is
  recorded.
\<close>

theorem keyword_reason_not_recorded:
  "first_matching_keyword [''urgent'', ''help''] ''urgent help'' = Some ''urgent'' \<and>
   first_matching_keyword [''help'', ''urgent''] ''urgent help'' = Some ''help'' \<and>
   shouldAlert [''urgent'', ''help''] (Str ''urgent help'') (Some []) = Inr True \<and>
   shouldAlert [''help'', ''urgent''] (Str ''urgent help'') (Some []) = Inr True \<and>
   app_message [''ALERT_KEYWORDS'' \<mapsto> ''urgent,help'']
     \<lparr>msg_text = Some (Str ''urgent help''), msg_channel = ''C024BE91L'',
      msg_ts = ''1700000000.000100''\<rparr> =
   app_message [''ALERT_KEYWORDS'' \<mapsto> ''help,urgent'']
     \<lparr>msg_text = Some (Str ''urgent help''), msg_channel = ''C024BE91L'',
      msg_ts = ''1700000000.000100''\<rparr>"
  by (simp add: first_matching_keyword_def shouldAlert_def app_message_def eval_simps)

subsection \<open>No cooldown\<close>

text \<open>
  C3, as the code has it. The message handler keeps no rate-limit state and reads neither a
  clock nor a cooldown setting: for any two messages of one channel that \<open>shouldAlert\<close>
  accepts, whatever their timestamps and whatever the environment, the run calls
  \<open>triggerMacAlert\<close> for both, in order. Nothing is suppressed.
\<close>

theorem no_cooldown_both_alert:
  assumes "shouldAlert (alertKeywords e) (js_or t1 []) (Some []) = Inr True"
      and "shouldAlert (alertKeywords e) (js_or t2 []) (Some []) = Inr True"
  shows "run e [Message \<lparr>msg_text = Some t1, msg_channel = c, msg_ts = ts1\<rparr>,
                Message \<lparr>msg_text = Some t2, msg_channel = c, msg_ts = ts2\<rparr>] =
           [TriggerMacAlert \<lparr>title = ''On-Call Alert'', message = js_or t1 [],
              channel = c, ts = ts1\<rparr>,
            TriggerMacAlert \<lparr>title = ''On-Call Alert'', message = js_or t2 [],
              channel = c, ts = ts2\<rparr>]"
  using assms by (simp add: run_two app_message_cases)

theorem no_cooldown_both_alert_witness:
  "shouldAlert (alertKeywords [''ALERT_KEYWORDS'' \<mapsto> ''urgent''])
     (js_or (Str ''urgent: projector down'') []) (Some []) = Inr True \<and>
   shouldAlert (alertKeywords [''ALERT_KEYWORDS'' \<mapsto> ''urgent''])
     (js_or (Str ''still URGENT'') []) (Some []) = Inr True \<and>
   run [''ALERT_KEYWORDS'' \<mapsto> ''urgent'']
     [Message \<lparr>msg_text = Some (Str ''urgent: projector down''),
        msg_channel = ''C024BE91L'', msg_ts = ''1700000000.000100''\<rparr>,
      Message \<lparr>msg_text = Some (Str ''still URGENT''),
        msg_channel = ''C024BE91L'', msg_ts = ''1700000001.000200''\<rparr>] =
     [TriggerMacAlert \<lparr>title = ''On-Call Alert'', message = Str ''urgent: projector down'',
        channel = ''C024BE91L'', ts = ''1700000000.000100''\<rparr>,
      TriggerMacAlert \<lparr>title = ''On-Call Alert'', message = Str ''still URGENT'',
        channel = ''C024BE91L'', ts = ''1700000001.000200''\<rparr>]"
proof -
  have h1: "shouldAlert (alertKeywords [''ALERT_KEYWORDS'' \<mapsto> ''urgent''])
     (js_or (Str ''urgent: projector down'') []) (Some []) = Inr True"
    by (simp add: shouldAlert_def eval_simps)
  have h2: "shouldAlert (alertKeywords [''ALERT_KEYWORDS'' \<mapsto> ''urgent''])
     (js_or (Str ''still URGENT'') []) (Some []) = Inr True"
    by (simp add: shouldAlert_def eval_simps)
  show ?thesis
    using h1 h2 no_cooldown_both_alert [OF h1 h2, of "''C024BE91L''"
      "''1700000000.000100''" "''1700000001.000200''"]
    by simp
qed

text \<open>
  C3 as stated fails. With \<open>RATE_LIMIT_MINUTES=5\<close> and two matching messages of the same channel one minute
  apart, both alerts are emitted.
\<close>

theorem cooldown_counterexample:
  "[''ALERT_KEYWORDS'' \<mapsto> ''urgent'', ''RATE_LIMIT_MINUTES'' \<mapsto> ''5'']
     ''RATE_LIMIT_MINUTES'' = Some ''5'' \<and>
   filter is_alert
     (run [''ALERT_KEYWORDS'' \<mapsto> ''urgent'', ''RATE_LIMIT_MINUTES'' \<mapsto> ''5'']
        [Message \<lparr>msg_text = Some (Str ''urgent: projector down''),
           msg_channel = ''C024BE91L'', msg_ts = ''1700000000.000100''\<rparr>,
         Message \<lparr>msg_text = Some (Str ''urgent: projector down''),
           msg_channel = ''C024BE91L'', msg_ts = ''1700000060.000200''\<rparr>]) =
     [TriggerMacAlert \<lparr>title = ''On-Call Alert'', message = Str ''urgent: projector down'',
        channel = ''C024BE91L'', ts = ''1700000000.000100''\<rparr>,
      TriggerMacAlert \<lparr>title = ''On-Call Alert'', message = Str ''urgent: projector down'',
        channel = ''C024BE91L'', ts = ''1700000060.000200''\<rparr>]"
  by (simp add: run_def app_message_def shouldAlert_def eval_simps)

subsection \<open>No channel filter\<close>

text \<open>
  C4, as the code has it. The message handler has no channel filter: whether it alerts is
  the same for every channel and for every two environments that agree on
  \<open>ALERT_KEYWORDS\<close>, so no allowlist or blocklist setting is ever consulted, and a
  message with a \<open>text\<close> property alerts exactly when \<open>shouldAlert\<close> returns
  \<open>true\<close> on its text.
\<close>

theorem no_channel_filter:
  assumes "e' ''ALERT_KEYWORDS'' = e ''ALERT_KEYWORDS''"
  shows "(app_message e' \<lparr>msg_text = t, msg_channel = c', msg_ts = s\<rparr> = []) =
         (app_message e \<lparr>msg_text = t, msg_channel = c, msg_ts = s\<rparr> = []) \<and>
         (app_message e \<lparr>msg_text = Some x, msg_channel = c, msg_ts = s\<rparr> = []) =
         (shouldAlert (alertKeywords e) (js_or x []) (Some []) \<noteq> Inr True)"
  using assms by (simp add: app_message_cases alertKeywords_def split: option.splits)

theorem no_channel_filter_witness:
  "[''ALERT_KEYWORDS'' \<mapsto> ''urgent'', ''CHANNEL_BLOCKLIST'' \<mapsto> ''general,C024BE91L'']
     ''ALERT_KEYWORDS'' = [''ALERT_KEYWORDS'' \<mapsto> ''urgent''] ''ALERT_KEYWORDS'' \<and>
   app_message [''ALERT_KEYWORDS'' \<mapsto> ''urgent'']
     \<lparr>msg_text = Some (Str ''urgent''), msg_channel = ''C0SUPPORT'', msg_ts = ''1.000100''\<rparr> \<noteq> [] \<and>
   app_message
     [''ALERT_KEYWORDS'' \<mapsto> ''urgent'', ''CHANNEL_BLOCKLIST'' \<mapsto> ''general,C024BE91L'']
     \<lparr>msg_text = Some (Str ''urgent''), msg_channel = ''C024BE91L'', msg_ts = ''1.000100''\<rparr> \<noteq> []"
proof -
  have h: "[''ALERT_KEYWORDS'' \<mapsto> ''urgent'', ''CHANNEL_BLOCKLIST'' \<mapsto> ''general,C024BE91L'']
     ''ALERT_KEYWORDS'' = [''ALERT_KEYWORDS'' \<mapsto> ''urgent''] ''ALERT_KEYWORDS''"
    by simp
  have v: "app_message [''ALERT_KEYWORDS'' \<mapsto> ''urgent'']
     \<lparr>msg_text = Some (Str ''urgent''), msg_channel = ''C0SUPPORT'', msg_ts = ''1.000100''\<rparr> \<noteq> []"
    by (simp add: app_message_def shouldAlert_def eval_simps)
  show ?thesis
    using h v no_channel_filter
      [of "[''ALERT_KEYWORDS'' \<mapsto> ''urgent'', ''CHANNEL_BLOCKLIST'' \<mapsto> ''general,C024BE91L'']"
        "[''ALERT_KEYWORDS'' \<mapsto> ''urgent'']" "Some (Str ''urgent'')" "''C024BE91L''"
        "''1.000100''" "''C0SUPPORT''"]
    by simp
qed

text \<open>
  C4 as stated fails. A message of channel \<open>C024BE91L\<close>, which \<open>CHANNEL_BLOCKLIST\<close> names, still alerts.
\<close>

theorem blocklist_counterexample:
  "[''ALERT_KEYWORDS'' \<mapsto> ''urgent'', ''CHANNEL_ALLOWLIST'' \<mapsto> ''general,it-support,C024BE91L'',
    ''CHANNEL_BLOCKLIST'' \<mapsto> ''general,C024BE91L''] ''CHANNEL_BLOCKLIST'' =
     Some ''general,C024BE91L'' \<and>
   app_message
     [''ALERT_KEYWORDS'' \<mapsto> ''urgent'', ''CHANNEL_ALLOWLIST'' \<mapsto> ''general,it-support,C024BE91L'',
      ''CHANNEL_BLOCKLIST'' \<mapsto> ''general,C024BE91L'']
     \<lparr>msg_text = Some (Str ''urgent: projector down''), msg_channel = ''C024BE91L'',
      msg_ts = ''1700000000.000100''\<rparr> =
     [TriggerMacAlert \<lparr>title = ''On-Call Alert'', message = Str ''urgent: projector down'',
        channel = ''C024BE91L'', ts = ''1700000000.000100''\<rparr>]"
  by (simp add: app_message_def shouldAlert_def eval_simps)

subsection \<open>No pattern stage\<close>

text \<open>
  C5, as the code has it. \<open>shouldAlert\<close> has no regular-expression stage: for a call
  without mentions on which no keyword is a case-insensitive substring of the text, it
  returns \<open>false\<close> and the message handler does nothing, in every environment and so
  whatever patterns are configured.
\<close>

theorem no_pattern_stage:
  assumes "\<not> has_mentions mentions"
      and "\<forall>k \<in> set (alertKeywords e).
             \<not> sublist (toLowerCase k) (toLowerCase (to_string (js_or text [])))"
  shows "shouldAlert (alertKeywords e) text mentions = Inr False \<and>
         app_message e \<lparr>msg_text = Some text, msg_channel = c, msg_ts = s\<rparr> = []"
  using assms
  by (simp add: app_message_cases shouldAlert_Inr list_ex_iff includes_str_sublist js_or_idem)

theorem no_pattern_stage_witness:
  "\<not> has_mentions (Some []) \<and>
   shouldAlert
     (alertKeywords
        [''ALERT_KEYWORDS'' \<mapsto> ''urgent'',
         ''KEYWORD_PATTERNS'' \<mapsto> ''room'' @ CHR 0x5C # ''s+'' @ CHR 0x5C # ''d+''])
     (Str ''room 204 needs help'') (Some []) = Inr False \<and>
   app_message
     [''ALERT_KEYWORDS'' \<mapsto> ''urgent'',
      ''KEYWORD_PATTERNS'' \<mapsto> ''room'' @ CHR 0x5C # ''s+'' @ CHR 0x5C # ''d+'']
     \<lparr>msg_text = Some (Str ''room 204 needs help''), msg_channel = ''C024BE91L'',
      msg_ts = ''1700000000.000100''\<rparr> = []"
proof -
  have h1: "\<not> has_mentions (Some [])" by simp
  have h2: "\<forall>k \<in> set (alertKeywords
               [''ALERT_KEYWORDS'' \<mapsto> ''urgent'',
                ''KEYWORD_PATTERNS'' \<mapsto> ''room'' @ CHR 0x5C # ''s+'' @ CHR 0x5C # ''d+'']).
             \<not> sublist (toLowerCase k)
                  (toLowerCase (to_string (js_or (Str ''room 204 needs help'') [])))"
    by (simp add: eval_simps includes_str_sublist [symmetric])
  show ?thesis
    using h1 no_pattern_stage [OF h1 h2, of "''C024BE91L''" "''1700000000.000100''"]
    by simp
qed

text \<open>
  C5 as stated fails. With the pattern \<open>room\s+\d+\<close> in \<open>KEYWORD_PATTERNS\<close> and no keyword, the text
  \<open>room 204 needs help\<close> is not matched and nothing is dispatched.
\<close>

theorem pattern_counterexample:
  "[''KEYWORD_PATTERNS'' \<mapsto> ''room'' @ CHR 0x5C # ''s+'' @ CHR 0x5C # ''d+'']
     ''KEYWORD_PATTERNS'' = Some (''room'' @ CHR 0x5C # ''s+'' @ CHR 0x5C # ''d+'') \<and>
   shouldAlert
     (alertKeywords [''KEYWORD_PATTERNS'' \<mapsto> ''room'' @ CHR 0x5C # ''s+'' @ CHR 0x5C # ''d+''])
     (Str ''room 204 needs help'') (Some []) = Inr False \<and>
   app_message [''KEYWORD_PATTERNS'' \<mapsto> ''room'' @ CHR 0x5C # ''s+'' @ CHR 0x5C # ''d+'']
     \<lparr>msg_text = Some (Str ''room 204 needs help''), msg_channel = ''C024BE91L'',
      msg_ts = ''1700000000.000100''\<rparr> = []"
  by (simp add: app_message_def shouldAlert_def eval_simps)

subsection \<open>No statistics\<close>




subsection \<open>Empty text\<close>

text \<open>
  C7. For every environment, a call without mentions whose text is absent or empty
  returns \<open>false\<close>, and the message handler does nothing on such a message: the parsed
  keywords are never empty strings, and the empty text includes no other string.
\<close>

theorem empty_text_never_matches:
  assumes "\<not> has_mentions mentions" and "js_or text [] = Str []"
  shows "shouldAlert (alertKeywords e) text mentions = Inr False \<and>
         app_message e \<lparr>msg_text = Some text, msg_channel = c, msg_ts = s\<rparr> = []"
  using assms
  by (auto simp: app_message_cases shouldAlert_Inr list_ex_iff toLowerCase_def
           dest: alertKeywords_nonempty)

theorem empty_text_never_matches_witness:
  "\<not> has_mentions (Some []) \<and> js_or (Str []) [] = Str [] \<and>
   shouldAlert (alertKeywords [''ALERT_KEYWORDS'' \<mapsto> ''urgent, ,@help,'']) (Str []) (Some []) =
     Inr False \<and>
   app_message [''ALERT_KEYWORDS'' \<mapsto> ''urgent, ,@help,'']
     \<lparr>msg_text = Some (Str []), msg_channel = ''C024BE91L'', msg_ts = ''1700000000.000100''\<rparr> = []"
proof -
  have h1: "\<not> has_mentions (Some [])" by simp
  have h2: "js_or (Str []) [] = Str []" by simp
  show ?thesis
    using h1 h2 empty_text_never_matches [OF h1 h2, of "[''ALERT_KEYWORDS'' \<mapsto> ''urgent, ,@help,'']"
      "''C024BE91L''" "''1700000000.000100''"]
    by simp
qed

subsection \<open>An empty keyword list\<close>

text \<open>
  C9. When every comma-separated entry of \<open>ALERT_KEYWORDS\<close> consists of white space only
  (an unset or empty variable gives one empty entry), the parsed keyword list is empty,
  \<open>shouldAlert\<close> returns \<open>false\<close> for every call without mentions, and the message
  handler never alerts.
\<close>

theorem empty_keywords_never_alert:
  assumes "list_all (list_all isWhiteSpace) (split_comma (env_or_empty (e ''ALERT_KEYWORDS'')))"
      and "\<not> has_mentions mentions"
  shows "alertKeywords e = [] \<and> shouldAlert (alertKeywords e) text mentions = Inr False \<and>
         app_message e \<lparr>msg_text = Some text, msg_channel = c, msg_ts = s\<rparr> = []"
proof -
  from assms(1) have "alertKeywords e = []"
    by (simp add: alertKeywords_def parseKeywords_Nil_iff)
  with assms(2) show ?thesis
    by (simp add: app_message_cases shouldAlert_Inr)
qed

theorem empty_keywords_never_alert_witness:
  "list_all (list_all isWhiteSpace)
     (split_comma (env_or_empty ([''ALERT_KEYWORDS'' \<mapsto> '' ,  ,''] ''ALERT_KEYWORDS''))) \<and>
   \<not> has_mentions (Some []) \<and>
   alertKeywords [''ALERT_KEYWORDS'' \<mapsto> '' ,  ,''] = [] \<and>
   shouldAlert (alertKeywords [''ALERT_KEYWORDS'' \<mapsto> '' ,  ,'']) (Str ''urgent help'') (Some []) =
     Inr False \<and>
   app_message [''ALERT_KEYWORDS'' \<mapsto> '' ,  ,'']
     \<lparr>msg_text = Some (Str ''urgent help''), msg_channel = ''C024BE91L'',
      msg_ts = ''1700000000.000100''\<rparr> = []"
proof -
  have h1: "list_all (list_all isWhiteSpace)
     (split_comma (env_or_empty ([''ALERT_KEYWORDS'' \<mapsto> '' ,  ,''] ''ALERT_KEYWORDS'')))"
    by (simp add: isWhiteSpace_def)
  have h2: "\<not> has_mentions (Some [])" by simp
  show ?thesis
    using h1 h2 empty_keywords_never_alert
      [of "[''ALERT_KEYWORDS'' \<mapsto> '' ,  ,'']" "Some []" "Str ''urgent help''" "''C024BE91L''"
        "''1700000000.000100''", OF h1 h2]
    by blast
qed

subsection \<open>Absent text\<close>

text \<open>
  C10. \<open>shouldAlert\<close> treats \<open>undefined\<close> and \<open>null\<close> text as the empty string, it
  returns a boolean and throws no \<open>TypeError\<close> for any text, and the message handler
  does nothing for a message without a \<open>text\<close> property.
\<close>

theorem shouldAlert_absent_text:
  "shouldAlert keywords Undefined mentions = shouldAlert keywords (Str []) mentions \<and>
   shouldAlert keywords Null mentions = shouldAlert keywords (Str []) mentions \<and>
   (\<exists>b. shouldAlert keywords text mentions = Inr b) \<and>
   app_message e \<lparr>msg_text = None, msg_channel = c, msg_ts = s\<rparr> = []"
  by (simp add: shouldAlert_Inr app_message_def)

theorem shouldAlert_absent_text_witness:
  "shouldAlert [''urgent''] Undefined (Some []) = Inr False \<and>
   shouldAlert [''urgent''] Null (Some []) = Inr False \<and>
   shouldAlert [''urgent''] (Str []) (Some []) = Inr False \<and>
   app_message [''ALERT_KEYWORDS'' \<mapsto> ''urgent'']
     \<lparr>msg_text = None, msg_channel = ''C024BE91L'', msg_ts = ''1700000000.000100''\<rparr> = []"
proof -
  have v: "shouldAlert [''urgent''] (Str []) (Some []) = Inr False"
    by (simp add: shouldAlert_def eval_simps)
  show ?thesis
    using v shouldAlert_absent_text [of "[''urgent'']" "Some []" Undefined
      "[''ALERT_KEYWORDS'' \<mapsto> ''urgent'']" "''C024BE91L''" "''1700000000.000100''"]
    by simp
qed

end
